theory Spec2Isabelle
  imports Main "HOL-Library.Sublist"
begin

section \<open>Python strings, the environment and the outcome of a script\<close>

text \<open>
  Both scripts read the environment variable \<^verbatim>\<open>AI_LAST_MESSAGE\<close> and print one line.
  A message is a \<^typ>\<open>string\<close> whose characters stand for the code points U+0000 to
  U+00FF; on that range Python's \<^verbatim>\<open>str.lower\<close> works character by character and
  \<^verbatim>\<open>str.strip\<close> removes exactly the characters listed in \<open>isspace\<close>. Messages with
  code points beyond U+00FF are outside the model.
\<close>

definition isspace :: "char \<Rightarrow> bool" where
  "isspace c = (let n = (of_char c :: nat) in
     (9 \<le> n \<and> n \<le> 13) \<or> (28 \<le> n \<and> n \<le> 32) \<or> n = 133 \<or> n = 160)"

definition strip :: "string \<Rightarrow> string" where
  "strip s = rev (dropWhile isspace (rev (dropWhile isspace s)))"

definition lower_char :: "char \<Rightarrow> char" where
  "lower_char c = (let n = (of_char c :: nat) in
     if (65 \<le> n \<and> n \<le> 90) \<or> (192 \<le> n \<and> n \<le> 222 \<and> n \<noteq> 215)
     then char_of (n + 32) else c)"

definition lower :: "string \<Rightarrow> string" where
  "lower s = map lower_char s"

text \<open>\<^verbatim>\<open>sep.join(xs)\<close>\<close>

fun join :: "string \<Rightarrow> string list \<Rightarrow> string" where
  "join sep [] = []"
| "join sep [x] = x"
| "join sep (x # y # ys) = x @ sep @ join sep (y # ys)"

text \<open>\<^verbatim>\<open>os.environ.get(key, default)\<close>\<close>

definition environ_get :: "(string \<rightharpoonup> string) \<Rightarrow> string \<Rightarrow> string \<Rightarrow> string" where
  "environ_get env key dflt = (case env key of None \<Rightarrow> dflt | Some v \<Rightarrow> v)"

text \<open>
  The exceptions that can reach the scripts. \<open>JSONDecodeError\<close> carries \<^verbatim>\<open>str(e)\<close>,
  the text that the f-string of the handler prints.
\<close>

datatype exn = JSONDecodeError string | TypeError | RecursionError | ValueError

text \<open>
  What one run of a script leaves behind: the lines it printed (one entry for each call
  of \<^verbatim>\<open>print\<close>), the exit status of the process, and the exception that ended it,
  if one did. An exception that nothing catches ends the interpreter with status 1.
\<close>

record run =
  stdout :: "string list"
  status :: nat
  uncaught :: "exn option"

definition exited :: "string list \<Rightarrow> run" where
  "exited out = \<lparr>stdout = out, status = 0, uncaught = None\<rparr>"

definition crashed :: "string list \<Rightarrow> exn \<Rightarrow> run" where
  "crashed out e = \<lparr>stdout = out, status = 1, uncaught = Some e\<rparr>"

section \<open>The keyword validator (test/e2e-fixtures/validate.py)\<close>

definition keywords_list :: "string list" where
  "keywords_list = [''file'', ''directory'', ''hello'', ''hi'', ''test'', ''workflow'',
                 ''.md'', ''.py'', ''.js'']"

text \<open>
  \<^verbatim>\<open>a in b\<close> on two strings is \<^term>\<open>sublist a b\<close>: \<open>b\<close> is \<open>a\<close> with something
  before and something after it. The branch of the empty message ends in
  \<^verbatim>\<open>sys.exit(0)\<close>; the other two run off the end of the script, which is status 0 too.
\<close>

definition keyword_validator :: "(string \<rightharpoonup> string) \<Rightarrow> run" where
  "keyword_validator env =
     (let last_message = environ_get env ''AI_LAST_MESSAGE'' '''' in
      if last_message = [] then exited [''No AI response received'']
      else if list_ex (\<lambda>keyword. sublist (lower keyword) (lower last_message)) keywords_list
      then exited [''true'']
      else exited [''Expected keywords but got: '' @ take 200 last_message @ ''...''])"

section \<open>The values of \<^verbatim>\<open>json.loads\<close>\<close>

text \<open>
  A decoded JSON string is a list of code points: an escape \<^verbatim>\<open>\uXXXX\<close> can name any
  of them. An object keeps its pairs in the order of the text; the Python dict built
  from them has a key exactly when some pair has it. A float keeps its text.
\<close>

type_synonym ustr = "nat list"

datatype json =
    JNull
  | JBool bool
  | JInt int
  | JFloat string
  | JString ustr
  | JArray "json list"
  | JObject "(ustr \<times> json) list"

definition ustr_of :: "string \<Rightarrow> ustr" where
  "ustr_of s = map of_char s"

section \<open>The decoder: \<^verbatim>\<open>json.loads\<close> of the standard library\<close>

text \<open>
  The schema validator calls \<^verbatim>\<open>json.loads\<close>, which is not code of the repository. Its
  model takes the decoder as the parameter \<open>loads\<close>; \<open>json_loads\<close> below is the decoder
  of CPython 3.11 (module \<^verbatim>\<open>json.decoder\<close> with the scanner of \<^verbatim>\<open>_json\<close>) on
  documents of code points up to U+00FF: the values, and the text of its errors.
\<close>

text \<open>
  The result of scanning a value from a suffix of the document: the value and the rest of
  the text, or a decoding error (its message and the number of characters that were left at
  the place of the error, so that the place is the length of the document less that number),
  or another exception, or the end of the fuel that bounds the recursion.
\<close>

datatype 'a scan = Scanned 'a string | Failed string nat | Raised exn | Exhausted

text \<open>The whitespace of JSON (\<^verbatim>\<open>WHITESPACE_STR\<close>), narrower than \<open>isspace\<close>.\<close>

definition is_ws :: "char \<Rightarrow> bool" where
  "is_ws c = (c = CHR '' '' \<or> c = CHR 0x09 \<or> c = CHR 0x0A \<or> c = CHR 0x0D)"

definition skip_ws :: "string \<Rightarrow> string" where
  "skip_ws s = dropWhile is_ws s"

definition code_point :: "char \<Rightarrow> nat" where
  "code_point c = of_char c"

definition is_digit :: "char \<Rightarrow> bool" where
  "is_digit c = (48 \<le> code_point c \<and> code_point c \<le> 57)"

definition hexval :: "char \<Rightarrow> nat option" where
  "hexval c =
     (let n = code_point c in
      if 48 \<le> n \<and> n \<le> 57 then Some (n - 48)
      else if 97 \<le> n \<and> n \<le> 102 then Some (n - 87)
      else if 65 \<le> n \<and> n \<le> 70 then Some (n - 55)
      else None)"

fun hex4 :: "string \<Rightarrow> nat option" where
  "hex4 (a # b # c # d # rest) =
     (case (hexval a, hexval b, hexval c, hexval d) of
        (Some w, Some x, Some y, Some z) \<Rightarrow> Some (((w * 16 + x) * 16 + y) * 16 + z)
      | _ \<Rightarrow> None)"
| "hex4 _ = None"

definition BACKSLASH :: "char \<Rightarrow> nat option" where
  "BACKSLASH esc =
     (if esc = CHR 0x22 then Some 0x22
      else if esc = CHR 0x5C then Some 0x5C
      else if esc = CHR ''/'' then Some 0x2F
      else if esc = CHR ''b'' then Some 0x08
      else if esc = CHR ''f'' then Some 0x0C
      else if esc = CHR ''n'' then Some 0x0A
      else if esc = CHR ''r'' then Some 0x0D
      else if esc = CHR ''t'' then Some 0x09
      else None)"

text \<open>
  \<^verbatim>\<open>scanstring(s, end)\<close>: the text after the opening quote, up to the closing one.
  A backslash starts an escape; \<^verbatim>\<open>\uXXXX\<close> needs four hexadecimal digits and one
  more character after them; a high surrogate followed by an escaped low surrogate is one
  code point; a character below U+0020 is not allowed. \<open>begin\<close> locates the opening
  quote for the error of a string that does not end.
\<close>

definition invalid_escape :: string where
  "invalid_escape = ''Invalid '' @ [CHR 0x5C] @ ''escape''"

definition invalid_uXXXX :: string where
  "invalid_uXXXX = ''Invalid '' @ [CHR 0x5C] @ ''uXXXX escape''"

fun scanstring :: "nat \<Rightarrow> ustr \<Rightarrow> string \<Rightarrow> ustr scan" where
  "scanstring begin chunks [] = Failed ''Unterminated string starting at'' begin"
| "scanstring begin chunks (c # cs) =
     (if c = CHR 0x22 then Scanned chunks cs
      else if c = CHR 0x5C then
        (case cs of
           [] \<Rightarrow> Failed ''Unterminated string starting at'' begin
         | esc # cs1 \<Rightarrow>
             if esc \<noteq> CHR ''u'' then
               (case BACKSLASH esc of
                  None \<Rightarrow> Failed invalid_escape (Suc (length cs))
                | Some ch \<Rightarrow> scanstring begin (chunks @ [ch]) cs1)
             else if length cs1 \<le> 4 then
               Failed invalid_uXXXX (length cs)
             else
               (case hex4 cs1 of
                  None \<Rightarrow> Failed invalid_uXXXX (length cs)
                | Some uni \<Rightarrow>
                    (let cs2 = drop 4 cs1 in
                     if 0xD800 \<le> uni \<and> uni \<le> 0xDBFF \<and> 6 < length cs2
                        \<and> take 2 cs2 = [CHR 0x5C, CHR ''u''] then
                       (case hex4 (drop 2 cs2) of
                          None \<Rightarrow>
                            Failed invalid_uXXXX (length cs2 - 1)
                        | Some uni2 \<Rightarrow>
                            if 0xDC00 \<le> uni2 \<and> uni2 \<le> 0xDFFF
                            then scanstring begin
                                   (chunks @ [0x10000 + (uni - 0xD800) * 1024 + (uni2 - 0xDC00)])
                                   (drop 6 cs2)
                            else scanstring begin (chunks @ [uni]) cs2)
                     else scanstring begin (chunks @ [uni]) cs2)))
      else if code_point c \<le> 0x1F then
        Failed ''Invalid control character at'' (Suc (length cs))
      else scanstring begin (chunks @ [code_point c]) cs)"


text \<open>
  A number: an optional minus, an integer part without leading zeros, an optional
  fraction and an optional exponent, the longest that matches. Without fraction and
  exponent it is an \<^verbatim>\<open>int\<close>, and \<^verbatim>\<open>int()\<close> refuses more than
  \<open>max_str_digits\<close> digits with a plain \<^verbatim>\<open>ValueError\<close>.
\<close>

definition as_int :: "string \<Rightarrow> int" where
  "as_int ds = foldl (\<lambda>a c. 10 * a + int (code_point c - 48)) 0 ds"

definition max_str_digits :: nat where
  "max_str_digits = 4300"

definition match_number :: "string \<Rightarrow> json scan" where
  "match_number cs =
     (let (sign, cs1) = (case cs of
                           [] \<Rightarrow> ([], cs)
                         | c # t \<Rightarrow> if c = CHR ''-'' then ([c], t) else ([], cs))
      in case cs1 of
           [] \<Rightarrow> Failed ''Expecting value'' (length cs)
         | c # t \<Rightarrow>
             if \<not> is_digit c then Failed ''Expecting value'' (length cs)
             else
               (let integer = (if c = CHR ''0'' then [c] else takeWhile is_digit cs1);
                    cs2 = drop (length integer) cs1;
                    frac = (case cs2 of
                              d # e # _ \<Rightarrow>
                                if d = CHR ''.'' \<and> is_digit e
                                then d # takeWhile is_digit (e # drop 2 cs2) else []
                            | _ \<Rightarrow> []);
                    cs3 = drop (length frac) cs2;
                    exp = (case cs3 of
                             [] \<Rightarrow> []
                           | e # t3 \<Rightarrow>
                               if e = CHR ''e'' \<or> e = CHR ''E'' then
                                 (let sg = (case t3 of
                                              [] \<Rightarrow> []
                                            | s # _ \<Rightarrow>
                                                if s = CHR ''+'' \<or> s = CHR ''-'' then [s] else []);
                                      ds = takeWhile is_digit (drop (length sg) t3)
                                  in if ds = [] then [] else e # sg @ ds)
                               else []);
                    cs4 = drop (length exp) cs3
                in if frac \<noteq> [] \<or> exp \<noteq> [] then Scanned (JFloat (sign @ integer @ frac @ exp)) cs4
                   else if max_str_digits < length integer then Raised ValueError
                   else Scanned (JInt (if sign = [] then as_int integer
                                       else - as_int integer)) cs4))"

text \<open>
  \<^verbatim>\<open>scan_once\<close> with the loops of \<^verbatim>\<open>JSONArray\<close> and \<^verbatim>\<open>JSONObject\<close>. An array
  or object that is not empty is read by its loop; \<open>JSONArray n values cs\<close> has read
  \<open>values\<close> and stands before the next element, \<open>JSONObject n pairs cs\<close> before the
  quote of the next key. Every call uses up one unit of fuel.
\<close>

definition expecting_comma :: string where
  "expecting_comma = ''Expecting '' @ [CHR 0x27] @ '','' @ [CHR 0x27] @ '' delimiter''"

definition expecting_colon :: string where
  "expecting_colon = ''Expecting '' @ [CHR 0x27] @ '':'' @ [CHR 0x27] @ '' delimiter''"

fun scan_once :: "nat \<Rightarrow> string \<Rightarrow> json scan"
  and JSONArray :: "nat \<Rightarrow> json list \<Rightarrow> string \<Rightarrow> json scan"
  and JSONObject :: "nat \<Rightarrow> (ustr \<times> json) list \<Rightarrow> string \<Rightarrow> json scan"
where
  "scan_once 0 cs = Exhausted"
| "scan_once (Suc n) cs =
     (case cs of
        [] \<Rightarrow> Failed ''Expecting value'' 0
      | nextchar # r \<Rightarrow>
          if nextchar = CHR 0x22 then
            (case scanstring (length cs) [] r of
               Scanned s r' \<Rightarrow> Scanned (JString s) r'
             | Failed msg p \<Rightarrow> Failed msg p
             | Raised e \<Rightarrow> Raised e
             | Exhausted \<Rightarrow> Exhausted)
          else if nextchar = CHR ''{'' then
            (case skip_ws r of
               [] \<Rightarrow> JSONObject n [] []
             | c # r' \<Rightarrow> if c = CHR ''}'' then Scanned (JObject []) r'
                         else JSONObject n [] (c # r'))
          else if nextchar = CHR ''['' then
            (case skip_ws r of
               [] \<Rightarrow> JSONArray n [] []
             | c # r' \<Rightarrow> if c = CHR '']'' then Scanned (JArray []) r'
                         else JSONArray n [] (c # r'))
          else if take 4 cs = ''null'' then Scanned JNull (drop 4 cs)
          else if take 4 cs = ''true'' then Scanned (JBool True) (drop 4 cs)
          else if take 5 cs = ''false'' then Scanned (JBool False) (drop 5 cs)
          else if take 3 cs = ''NaN'' then Scanned (JFloat ''NaN'') (drop 3 cs)
          else if take 8 cs = ''Infinity'' then Scanned (JFloat ''Infinity'') (drop 8 cs)
          else if take 9 cs = ''-Infinity'' then Scanned (JFloat ''-Infinity'') (drop 9 cs)
          else match_number cs)"
| "JSONArray 0 values cs = Exhausted"
| "JSONArray (Suc n) values cs =
     (case scan_once n cs of
        Scanned v r \<Rightarrow>
          (case skip_ws r of
             [] \<Rightarrow> Failed expecting_comma 0
           | nextchar # r' \<Rightarrow>
               if nextchar = CHR '']'' then Scanned (JArray (values @ [v])) r'
               else if nextchar \<noteq> CHR '','' then
                 Failed expecting_comma (Suc (length r'))
               else JSONArray n (values @ [v]) (skip_ws r'))
      | Failed msg p \<Rightarrow> Failed msg p
      | Raised e \<Rightarrow> Raised e
      | Exhausted \<Rightarrow> Exhausted)"
| "JSONObject 0 pairs cs = Exhausted"
| "JSONObject (Suc n) pairs cs =
     (case cs of
        [] \<Rightarrow> Failed ''Expecting property name enclosed in double quotes'' 0
      | q # r \<Rightarrow>
          if q \<noteq> CHR 0x22 then
            Failed ''Expecting property name enclosed in double quotes'' (length cs)
          else
            (case scanstring (length cs) [] r of
               Scanned key r1 \<Rightarrow>
                 (case skip_ws r1 of
                    [] \<Rightarrow> Failed expecting_colon 0
                  | colon # r2 \<Rightarrow>
                      if colon \<noteq> CHR '':'' then
                        Failed expecting_colon (Suc (length r2))
                      else
                        (case scan_once n (skip_ws r2) of
                           Scanned v r3 \<Rightarrow>
                             (case skip_ws r3 of
                                [] \<Rightarrow> Failed expecting_comma 0
                              | nextchar # r4 \<Rightarrow>
                                  if nextchar = CHR ''}'' then
                                    Scanned (JObject (pairs @ [(key, v)])) r4
                                  else if nextchar \<noteq> CHR '','' then
                                    Failed expecting_comma (Suc (length r4))
                                  else JSONObject n (pairs @ [(key, v)]) (skip_ws r4))
                         | Failed msg p \<Rightarrow> Failed msg p
                         | Raised e \<Rightarrow> Raised e
                         | Exhausted \<Rightarrow> Exhausted))
             | Failed msg p \<Rightarrow> Failed msg p
             | Raised e \<Rightarrow> Raised e
             | Exhausted \<Rightarrow> Exhausted))"

text \<open>
  \<^verbatim>\<open>JSONDecodeError(msg, doc, pos)\<close>: its text names the line, the column and the
  position. \<open>show_nat\<close> is \<^verbatim>\<open>%d\<close>.
\<close>

fun show_nat :: "nat \<Rightarrow> string" where
  "show_nat n = (if n < 10 then [char_of (48 + n)]
                 else show_nat (n div 10) @ [char_of (48 + n mod 10)])"

definition errmsg :: "string \<Rightarrow> string \<Rightarrow> nat \<Rightarrow> string" where
  "errmsg msg doc pos =
     (let upto = take pos doc;
          lineno = count_list upto (CHR 0x0A) + 1;
          colno = length (takeWhile (\<lambda>c. c \<noteq> CHR 0x0A) (rev upto)) + 1
      in msg @ '': line '' @ show_nat lineno @ '' column '' @ show_nat colno
           @ '' (char '' @ show_nat pos @ '')'')"

text \<open>
  \<^verbatim>\<open>json.loads(s)\<close>: one value between optional whitespace, and nothing after it.
  The fuel \<open>2 * length s + 1\<close> is never used up (\<open>scan_once_fuel\<close> below). Two limits
  of the interpreter are not part of this model: the recursion limit, which ends the
  decoding of a document nested about a thousand levels deep with \<^verbatim>\<open>RecursionError\<close>,
  and the byte order mark U+FEFF, which is beyond the code points of a message here.
\<close>

definition json_loads :: "string \<Rightarrow> exn + json" where
  "json_loads s =
     (case scan_once (2 * length s + 1) (skip_ws s) of
        Scanned obj r \<Rightarrow>
          (let rest = skip_ws r in
           if rest \<noteq> []
           then Inl (JSONDecodeError (errmsg ''Extra data'' s (length s - length rest)))
           else Inr obj)
      | Failed msg p \<Rightarrow> Inl (JSONDecodeError (errmsg msg s (length s - p)))
      | Raised e \<Rightarrow> Inl e
      | Exhausted \<Rightarrow> Inl RecursionError)"

section \<open>The schema validator (examples/with-validation/validate.py)\<close>

text \<open>
  \<^verbatim>\<open>f in data\<close>: key lookup in a dict, equality with an element in a list (a string
  equals only a string), substring in a string, and \<^verbatim>\<open>TypeError\<close> on a number, a
  boolean or \<^verbatim>\<open>None\<close>, none of which is iterable.
\<close>

fun py_in :: "string \<Rightarrow> json \<Rightarrow> exn + bool" where
  "py_in f (JObject kvs) = Inr (ustr_of f \<in> set (map fst kvs))"
| "py_in f (JArray xs) = Inr (JString (ustr_of f) \<in> set xs)"
| "py_in f (JString s) = Inr (sublist (ustr_of f) s)"
| "py_in f JNull = Inl TypeError"
| "py_in f (JBool b) = Inl TypeError"
| "py_in f (JInt i) = Inl TypeError"
| "py_in f (JFloat x) = Inl TypeError"

text \<open>
  The list comprehension \<^verbatim>\<open>[f for f in fields if f not in data]\<close>: the fields are
  tried from left to right and the first exception ends the comprehension.
\<close>

fun missing_of :: "string list \<Rightarrow> json \<Rightarrow> exn + string list" where
  "missing_of [] data = Inr []"
| "missing_of (f # fs) data =
     (case py_in f data of
        Inl e \<Rightarrow> Inl e
      | Inr present \<Rightarrow>
          (case missing_of fs data of
             Inl e \<Rightarrow> Inl e
           | Inr ms \<Rightarrow> Inr (if present then ms else f # ms)))"

definition required :: "string list" where
  "required = [''name'', ''description'', ''language'']"

text \<open>
  The body of the \<^verbatim>\<open>try\<close>: the lines it prints, or the exception that leaves it.
  \<open>loads\<close> is \<^verbatim>\<open>json.loads\<close>, a function of the standard library.
\<close>

definition try_body :: "(string \<Rightarrow> exn + json) \<Rightarrow> string \<Rightarrow> exn + string list" where
  "try_body loads message =
     (case loads message of
        Inl e \<Rightarrow> Inl e
      | Inr data \<Rightarrow>
          (case missing_of required data of
             Inl e \<Rightarrow> Inl e
           | Inr missing \<Rightarrow>
               if missing \<noteq> []
               then Inr [''Missing required fields: '' @ join '', '' missing]
               else Inr [''true'']))"

text \<open>
  The handler \<^verbatim>\<open>except json.JSONDecodeError as e\<close> catches that exception only; any
  other one leaves the script uncaught.
\<close>

definition schema_validator :: "(string \<Rightarrow> exn + json) \<Rightarrow> (string \<rightharpoonup> string) \<Rightarrow> run" where
  "schema_validator loads env =
     (let message = environ_get env ''AI_LAST_MESSAGE'' '''' in
      if strip message = [] then exited [''No output received from AI'']
      else (case try_body loads message of
              Inr out \<Rightarrow> exited out
            | Inl (JSONDecodeError e) \<Rightarrow> exited [''Output is not valid JSON: '' @ e]
            | Inl TypeError \<Rightarrow> crashed [] TypeError
            | Inl RecursionError \<Rightarrow> crashed [] RecursionError
            | Inl ValueError \<Rightarrow> crashed [] ValueError))"

section \<open>Notions of the specification\<close>




section \<open>The decoder has fuel enough\<close>

text \<open>
  Every value that is scanned uses up at least one character, so the loops of an array and
  of an object come to an end, and twice the length of the text and one more is fuel
  enough for \<open>scan_once\<close>: \<open>json_loads\<close> never gives \<open>Exhausted\<close>.
\<close>

lemma skip_ws_length: "length (skip_ws s) \<le> length s"
  by (simp add: skip_ws_def length_dropWhile_le)

lemma skip_ws_Cons: "skip_ws s = c # r \<Longrightarrow> length r < length s"
  using skip_ws_length [of s] by simp

lemma less_skip_ws: "n < length (skip_ws s) \<Longrightarrow> n < length s"
  using skip_ws_length [of s] by simp

lemma match_number_progress:
  assumes "match_number cs = Scanned v r"
  shows "length r < length cs"
proof (cases cs)
  case Nil
  with assms show ?thesis by (simp add: match_number_def)
next
  case (Cons c t)
  show ?thesis
  proof (cases "c = CHR ''-''")
    case False
    with assms Cons show ?thesis
      by (auto simp: match_number_def Let_def split: if_splits)
  next
    case True
    show ?thesis
    proof (cases t)
      case Nil
      with assms Cons True show ?thesis by (simp add: match_number_def)
    next
      case (Cons d u)
      with assms \<open>cs = c # t\<close> True show ?thesis
        by (auto simp: match_number_def Let_def split: if_splits)
    qed
  qed
qed

lemma match_number_not_Exhausted: "match_number cs \<noteq> Exhausted"
proof (cases cs)
  case Nil
  then show ?thesis by (simp add: match_number_def)
next
  case (Cons c t)
  then show ?thesis
    by (cases t) (auto simp: match_number_def Let_def split: if_splits)
qed

lemma scanstring_progress:
  "scanstring b acc cs = Scanned s r \<Longrightarrow> length r < length cs"
proof (induction cs arbitrary: b acc rule: length_induct)
  case (1 cs)
  have IH: "\<And>ys b' acc'. scanstring b' acc' ys = Scanned s r \<Longrightarrow> length ys < length cs
              \<Longrightarrow> length r < length ys"
    using "1.IH" by blast
  show ?case
  proof (cases cs)
    case Nil
    with "1.prems" show ?thesis by simp
  next
    case (Cons c t)
    with "1.prems" show ?thesis
      by (auto simp: Let_def split: if_splits list.splits option.splits dest!: IH)
  qed
qed

lemma scanstring_no_exn:
  "scanstring b acc cs \<noteq> Exhausted \<and> scanstring b acc cs \<noteq> Raised e"
proof (induction cs arbitrary: b acc rule: length_induct)
  case (1 cs)
  have IH: "\<And>ys b' acc'. length ys < length cs \<Longrightarrow>
              scanstring b' acc' ys \<noteq> Exhausted \<and> scanstring b' acc' ys \<noteq> Raised e"
    using "1.IH" by blast
  show ?case
  proof (cases cs)
    case Nil
    then show ?thesis by simp
  next
    case (Cons c t)
    then show ?thesis
      by (auto simp: Let_def IH split: if_splits list.splits option.splits)
  qed
qed

lemma scan_progress:
  "(\<forall>cs v r. scan_once n cs = Scanned v r \<longrightarrow> length r < length cs)
   \<and> (\<forall>vs cs v r. JSONArray n vs cs = Scanned v r \<longrightarrow> length r < length cs)
   \<and> (\<forall>ps cs v r. JSONObject n ps cs = Scanned v r \<longrightarrow> length r < length cs)"
proof (induction n)
  case 0
  show ?case by simp
next
  case (Suc n)
  have S: "\<And>cs v r. scan_once n cs = Scanned v r \<Longrightarrow> length r < length cs"
    and A: "\<And>vs cs v r. JSONArray n vs cs = Scanned v r \<Longrightarrow> length r < length cs"
    and J: "\<And>ps cs v r. JSONObject n ps cs = Scanned v r \<Longrightarrow> length r < length cs"
    using Suc.IH by blast+
  have 1: "length r < length cs" if "scan_once (Suc n) cs = Scanned v r" for cs v r
  proof (cases cs)
    case Nil
    with that show ?thesis by simp
  next
    case (Cons c t)
    have *: "length (skip_ws t) \<le> length t" by (rule skip_ws_length)
    from that Cons show ?thesis
      by (auto split: if_splits scan.splits list.splits
               dest!: scanstring_progress match_number_progress A J skip_ws_Cons)
  qed
  have 2: "length r < length cs" if "JSONArray (Suc n) vs cs = Scanned v r" for vs cs v r
    using that skip_ws_length
    by (auto split: if_splits scan.splits list.splits dest!: S A skip_ws_Cons
             intro: less_trans le_less_trans less_le_trans)
  have 3: "length r < length cs" if "JSONObject (Suc n) ps cs = Scanned v r" for ps cs v r
    using that
    by (auto split: if_splits scan.splits list.splits
             dest!: S J skip_ws_Cons scanstring_progress less_skip_ws)
  from 1 2 3 show ?case by blast
qed

lemma scan_fuel:
  "(\<forall>cs. 2 * length cs < n \<longrightarrow> scan_once n cs \<noteq> Exhausted)
   \<and> (\<forall>vs cs. 2 * length cs + 1 < n \<longrightarrow> JSONArray n vs cs \<noteq> Exhausted)
   \<and> (\<forall>ps cs. 2 * length cs + 1 < n \<longrightarrow> JSONObject n ps cs \<noteq> Exhausted)"
proof (induction n)
  case 0
  show ?case by simp
next
  case (Suc n)
  have S: "\<And>cs. scan_once n cs = Exhausted \<Longrightarrow> n \<le> 2 * length cs"
    and A: "\<And>vs cs. JSONArray n vs cs = Exhausted \<Longrightarrow> n \<le> 2 * length cs + 1"
    and J: "\<And>ps cs. JSONObject n ps cs = Exhausted \<Longrightarrow> n \<le> 2 * length cs + 1"
    using Suc.IH by (meson not_le_imp_less)+
  have P: "\<And>cs v r. scan_once n cs = Scanned v r \<Longrightarrow> length r < length cs"
    using scan_progress [of n] by blast
  have 1: "scan_once (Suc n) cs \<noteq> Exhausted" if "2 * length cs < Suc n" for cs
  proof (cases cs)
    case Nil
    then show ?thesis by simp
  next
    case (Cons c t)
    have a: "JSONArray n [] u \<noteq> Exhausted" if "skip_ws t = u" for u
      using A [of "[]" u] that skip_ws_length [of t] \<open>2 * length cs < Suc n\<close> Cons by auto
    have j: "JSONObject n [] u \<noteq> Exhausted" if "skip_ws t = u" for u
      using J [of "[]" u] that skip_ws_length [of t] \<open>2 * length cs < Suc n\<close> Cons by auto
    have a0: "JSONArray n [] [] \<noteq> Exhausted"
      using A [of "[]" "[]"] \<open>2 * length cs < Suc n\<close> Cons by auto
    have j0: "JSONObject n [] [] \<noteq> Exhausted"
      using J [of "[]" "[]"] \<open>2 * length cs < Suc n\<close> Cons by auto
    have s: "scanstring (length cs) [] t \<noteq> Exhausted"
      using scanstring_no_exn by blast
    show ?thesis
      using a0 j0 s match_number_not_Exhausted [of "c # t"]
      by (auto simp: Cons a j split: scan.splits list.splits)
  qed
  have 2: "JSONArray (Suc n) vs cs \<noteq> Exhausted" if "2 * length cs + 1 < Suc n" for vs cs
  proof
    assume E: "JSONArray (Suc n) vs cs = Exhausted"
    show False
    proof (cases "scan_once n cs")
      case (Scanned v r)
      show False
      proof (cases "skip_ws r")
        case Nil
        with E Scanned show False by simp
      next
        case (Cons c r')
        with E Scanned have "JSONArray n (vs @ [v]) (skip_ws r') = Exhausted"
          by (simp split: if_splits)
        from A [OF this] skip_ws_length [of r'] skip_ws_Cons [OF Cons] P [OF Scanned] that
        show False by simp
      qed
    next
      case Exhausted
      from S [OF this] that show False by simp
    qed (use E in simp_all)
  qed
  have 3: "JSONObject (Suc n) ps cs \<noteq> Exhausted" if "2 * length cs + 1 < Suc n" for ps cs
  proof
    assume E: "JSONObject (Suc n) ps cs = Exhausted"
    show False
    proof (cases cs)
      case Nil
      with E show False by simp
    next
      case (Cons q r)
      show False
      proof (cases "scanstring (length cs) [] r")
        case (Scanned key r1)
        note l1 = scanstring_progress [OF Scanned]
        show False
        proof (cases "skip_ws r1")
          case Nil
          with E Cons Scanned show False by (simp split: if_splits)
        next
          case c2: (Cons colon r2)
          note l2 = skip_ws_Cons [OF c2]
          show False
          proof (cases "scan_once n (skip_ws r2)")
            case s2: (Scanned v r3)
            note l3 = P [OF s2]
            show False
            proof (cases "skip_ws r3")
              case Nil
              with E Cons Scanned c2 s2 show False by (simp split: if_splits)
            next
              case c4: (Cons nextchar r4)
              note l4 = skip_ws_Cons [OF c4]
              from E Cons Scanned c2 s2 c4
              have "JSONObject n (ps @ [(key, v)]) (skip_ws r4) = Exhausted"
                by (simp split: if_splits)
              from J [OF this] skip_ws_length [of r4] skip_ws_length [of r2] l1 l2 l3 l4 that Cons
              show False by simp
            qed
          next
            case Exhausted
            from S [OF this] skip_ws_length [of r2] l1 l2 that Cons show False by simp
          qed (use E Cons Scanned c2 in \<open>simp_all split: if_splits\<close>)
        qed
      next
        case Exhausted
        with scanstring_no_exn show False by blast
      qed (use E Cons in \<open>simp_all split: if_splits\<close>)
    qed
  qed
  from 1 2 3 show ?case by blast
qed

lemma scan_once_fuel: "scan_once (2 * length s + 1) (skip_ws s) \<noteq> Exhausted"
proof -
  have "2 * length (skip_ws s) < 2 * length s + 1"
    using skip_ws_length [of s] by simp
  then show ?thesis using scan_fuel [of "2 * length s + 1"] by blast
qed

text \<open>
  The only exception the decoder raises besides its own error is the \<^verbatim>\<open>ValueError\<close>
  of an integer with too many digits.
\<close>

lemma match_number_Raised: "match_number cs = Raised e \<Longrightarrow> e = ValueError"
proof (cases cs)
  case Nil
  then show "match_number cs = Raised e \<Longrightarrow> e = ValueError" by (simp add: match_number_def)
next
  case (Cons c t)
  then show "match_number cs = Raised e \<Longrightarrow> e = ValueError"
    by (cases t) (auto simp: match_number_def Let_def split: if_splits)
qed

lemma scan_Raised:
  "(\<forall>cs e. scan_once n cs = Raised e \<longrightarrow> e = ValueError)
   \<and> (\<forall>vs cs e. JSONArray n vs cs = Raised e \<longrightarrow> e = ValueError)
   \<and> (\<forall>ps cs e. JSONObject n ps cs = Raised e \<longrightarrow> e = ValueError)"
proof (induction n)
  case 0
  show ?case by simp
next
  case (Suc n)
  have S: "\<And>cs e. scan_once n cs = Raised e \<Longrightarrow> e = ValueError"
    and A: "\<And>vs cs e. JSONArray n vs cs = Raised e \<Longrightarrow> e = ValueError"
    and J: "\<And>ps cs e. JSONObject n ps cs = Raised e \<Longrightarrow> e = ValueError"
    using Suc.IH by blast+
  have N: "\<And>b acc cs e. scanstring b acc cs \<noteq> Raised e"
    using scanstring_no_exn by blast
  have 1: "e = ValueError" if "scan_once (Suc n) cs = Raised e" for cs e
    using that N
    by (cases cs)
       (auto split: if_splits scan.splits list.splits dest: A J match_number_Raised)
  have 2: "e = ValueError" if "JSONArray (Suc n) vs cs = Raised e" for vs cs e
    using that
    by (auto split: if_splits scan.splits list.splits dest: S A)
  have 3: "e = ValueError" if "JSONObject (Suc n) ps cs = Raised e" for ps cs e
    using that N
    by (auto split: if_splits scan.splits list.splits dest: S J)
  from 1 2 3 show ?case by blast
qed

lemma json_loads_cases:
  "(\<exists>data. json_loads s = Inr data) \<or> (\<exists>d. json_loads s = Inl (JSONDecodeError d))
   \<or> json_loads s = Inl ValueError"
proof (cases "scan_once (2 * length s + 1) (skip_ws s)")
  case (Scanned obj r)
  then show ?thesis by (simp add: json_loads_def Let_def)
next
  case (Failed msg p)
  then show ?thesis by (simp add: json_loads_def)
next
  case (Raised e)
  with scan_Raised [of "2 * length s + 1"] have "e = ValueError" by blast
  with Raised show ?thesis by (simp add: json_loads_def)
next
  case Exhausted
  with scan_once_fuel show ?thesis by blast
qed

section \<open>Strings\<close>

lemma strip_Nil_iff: "strip s = [] \<longleftrightarrow> (\<forall>c\<in>set s. isspace c)"
proof -
  have "(\<forall>c\<in>set (dropWhile isspace s). isspace c) \<longleftrightarrow> (\<forall>c\<in>set s. isspace c)"
  proof
    assume a: "\<forall>c\<in>set (dropWhile isspace s). isspace c"
    have "dropWhile isspace s = []"
    proof (rule ccontr)
      assume "dropWhile isspace s \<noteq> []"
      then have "\<not> isspace (hd (dropWhile isspace s))"
        and "hd (dropWhile isspace s) \<in> set (dropWhile isspace s)"
        by (simp_all add: hd_dropWhile)
      with a show False by blast
    qed
    then show "\<forall>c\<in>set s. isspace c" by (simp add: dropWhile_eq_Nil_conv)
  next
    assume "\<forall>c\<in>set s. isspace c"
    then show "\<forall>c\<in>set (dropWhile isspace s). isspace c"
      using set_dropWhileD by fastforce
  qed
  then show ?thesis
    by (simp add: strip_def)
qed


lemma isspace_lower_char: "isspace c \<Longrightarrow> lower_char c = c"
  by (auto simp: isspace_def lower_char_def Let_def)

section \<open>The keyword validator\<close>


lemma keywords_not_blank:
  "list_all (\<lambda>k. list_ex (\<lambda>c. \<not> isspace c) (lower k)) keywords_list"
  by code_simp

lemma blank_no_keyword:
  assumes "\<forall>c\<in>set m. isspace c" and "k \<in> set keywords_list"
  shows "\<not> sublist (lower k) (lower m)"
proof
  assume s: "sublist (lower k) (lower m)"
  have "lower m = m"
    using assms(1) by (simp add: lower_def isspace_lower_char map_idI)
  with s have "set (lower k) \<subseteq> set m"
    by (metis set_mono_sublist)
  with assms(1) have "\<forall>c\<in>set (lower k). isspace c" by blast
  moreover from keywords_not_blank assms(2) have "\<exists>c\<in>set (lower k). \<not> isspace c"
    by (simp add: list_all_iff list_ex_iff)
  ultimately show False by blast
qed



text \<open>
  Claim C7. When the message is empty, also because the variable is absent, the keyword
  validator prints exactly \<open>No AI response received\<close> and ends with exit status zero.
\<close>

theorem keyword_validator_no_response:
  assumes "env ''AI_LAST_MESSAGE'' = None \<or> env ''AI_LAST_MESSAGE'' = Some []"
  shows "stdout (keyword_validator env) = [''No AI response received'']
         \<and> status (keyword_validator env) = 0
         \<and> uncaught (keyword_validator env) = None"
  using assms by (auto simp: keyword_validator_def environ_get_def exited_def)

theorem keyword_validator_no_response_witness:
  "stdout (keyword_validator Map.empty) = [''No AI response received'']
   \<and> status (keyword_validator Map.empty) = 0
   \<and> uncaught (keyword_validator Map.empty) = None
   \<and> stdout (keyword_validator [''AI_LAST_MESSAGE'' \<mapsto> []]) = [''No AI response received'']
   \<and> status (keyword_validator [''AI_LAST_MESSAGE'' \<mapsto> []]) = 0
   \<and> uncaught (keyword_validator [''AI_LAST_MESSAGE'' \<mapsto> []]) = None"
  using keyword_validator_no_response [of Map.empty]
    keyword_validator_no_response [of "[''AI_LAST_MESSAGE'' \<mapsto> []]"]
  by simp

text \<open>
  Claim C10. The keyword validator takes a message of whitespace only for a message: it
  does not print the line of the empty message but searches the keywords, finds none and
  prints \<open>Expected keywords but got: \<close>, the first 200 characters of the message and
  three dots. The schema validator strips the same message and reports no output.
\<close>

theorem whitespace_only_message:
  assumes "env ''AI_LAST_MESSAGE'' = Some message"
    and "message \<noteq> []"
    and "\<forall>c\<in>set message. isspace c"
  shows "keyword_validator env =
           exited [''Expected keywords but got: '' @ take 200 message @ ''...'']
         \<and> schema_validator loads env = exited [''No output received from AI'']"
proof -
  have "\<not> list_ex (\<lambda>keyword. sublist (lower keyword) (lower message)) keywords_list"
    using blank_no_keyword [OF assms(3)] by (auto simp: list_ex_iff)
  then have "keyword_validator env =
           exited [''Expected keywords but got: '' @ take 200 message @ ''...'']"
    using assms(1,2) by (simp add: keyword_validator_def environ_get_def)
  moreover have "schema_validator loads env = exited [''No output received from AI'']"
    using assms(1,3) by (simp add: schema_validator_def environ_get_def strip_Nil_iff)
  ultimately show ?thesis by blast
qed

theorem whitespace_only_message_witness:
  "keyword_validator [''AI_LAST_MESSAGE'' \<mapsto> '' ''] = exited [''Expected keywords but got:  ...'']
   \<and> schema_validator json_loads [''AI_LAST_MESSAGE'' \<mapsto> '' '']
       = exited [''No output received from AI'']"
proof -
  have "[''AI_LAST_MESSAGE'' \<mapsto> '' ''] ''AI_LAST_MESSAGE'' = Some '' ''"
    and "'' '' \<noteq> []"
    and "\<forall>c\<in>set '' ''. isspace c"
    by (simp_all add: isspace_def)
  from whitespace_only_message [of "[''AI_LAST_MESSAGE'' \<mapsto> '' '']" _ json_loads, OF this]
  show ?thesis by simp
qed

section \<open>The schema validator\<close>






text \<open>
  Claim C6. When the message is empty or consists of whitespace only, the schema validator
  prints exactly \<open>No output received from AI\<close> and does not try to decode the message:
  the run is the same whatever \<open>loads\<close> would do, even raise.
\<close>

theorem schema_validator_no_output:
  assumes "\<forall>c\<in>set (environ_get env ''AI_LAST_MESSAGE'' []). isspace c"
  shows "schema_validator loads env = exited [''No output received from AI'']"
  using assms by (simp add: schema_validator_def strip_Nil_iff)

theorem schema_validator_no_output_witness:
  "schema_validator json_loads Map.empty = exited [''No output received from AI'']
   \<and> schema_validator (\<lambda>s. Inl TypeError) [''AI_LAST_MESSAGE'' \<mapsto> [CHR '' '', CHR 0x09, CHR 0x0A]]
       = exited [''No output received from AI'']"
proof -
  have "\<forall>c\<in>set (environ_get Map.empty ''AI_LAST_MESSAGE'' []). isspace c"
    by (simp add: environ_get_def)
  moreover have "\<forall>c\<in>set (environ_get [''AI_LAST_MESSAGE'' \<mapsto> [CHR '' '', CHR 0x09, CHR 0x0A]]
                       ''AI_LAST_MESSAGE'' []). isspace c"
    by (simp add: environ_get_def isspace_def)
  ultimately show ?thesis
    using schema_validator_no_output [of Map.empty json_loads]
      schema_validator_no_output
        [of "[''AI_LAST_MESSAGE'' \<mapsto> [CHR '' '', CHR 0x09, CHR 0x0A]]" "\<lambda>s. Inl TypeError"]
    by blast
qed








text \<open>
  Claim C9. The test of presence is Python's membership on whatever value was decoded:
  the array of the three names and a string that contains them both decode to something
  that is no mapping, and the schema validator prints \<open>true\<close> for each.
\<close>

theorem membership_beyond_mappings:
  \<open>json_loads ''["name","description","language"]''
     = Inr (JArray [JString (ustr_of ''name''), JString (ustr_of ''description''),
                    JString (ustr_of ''language'')])
   \<and> schema_validator json_loads
         [''AI_LAST_MESSAGE'' \<mapsto> ''["name","description","language"]'']
       = exited [''true'']
   \<and> json_loads ''"name description language"''
       = Inr (JString (ustr_of ''name description language''))
   \<and> schema_validator json_loads [''AI_LAST_MESSAGE'' \<mapsto> ''"name description language"'']
       = exited [''true'']\<close>
  by code_simp

text \<open>
  Claim C1 says that for every message the schema validator ends with exit status zero
  after exactly one line, and that no error leaves it as an exception. At the message
  \<open>1\<close> the decoding succeeds with a number, the membership test on a number raises
  \<open>TypeError\<close>, the handler is for \<open>JSONDecodeError\<close> only, and the process ends with
  status 1 and no line printed.
\<close>

theorem schema_validator_scalar_uncaught:
  "json_loads ''1'' = Inr (JInt 1)
   \<and> stdout (schema_validator json_loads [''AI_LAST_MESSAGE'' \<mapsto> ''1'']) = []
   \<and> status (schema_validator json_loads [''AI_LAST_MESSAGE'' \<mapsto> ''1'']) = 1
   \<and> uncaught (schema_validator json_loads [''AI_LAST_MESSAGE'' \<mapsto> ''1'']) = Some TypeError"
  by code_simp

section \<open>Both validators\<close>



end
